theory Spec2Isabelle
  imports Main
begin

section \<open>Data model\<close>

text \<open>
  The storefront client is TypeScript. A JavaScript string is modelled as a \<open>string\<close>
  (a list of characters, \<open>.length\<close> being the length of the list), and a \<open>number\<close> that
  holds a rupee amount as an \<open>int\<close>: the amounts of the checkout flow are whole numbers far
  below \<open>2 ^ 53\<close>, where the comparison and the addition of doubles are exact.
  An optional field (\<open>brand?\<close>, \<open>address_line2?\<close>) is an \<open>option\<close>.
  Field names that clash with a constant of HOL carry a prime (\<open>id'\<close>, \<open>image'\<close>,
  \<open>total'\<close>); where two interfaces share a field name the later one is prefixed.
\<close>

subsection \<open>The cart store (store/cartStore.ts)\<close>

record Product =
  id' :: string
  name :: string
  price :: int
  image' :: string
  brand :: "string option"

record CartItem =
  product_id :: string
  quantity :: int
  product :: Product

record CartState =
  items :: "CartItem list"
  total' :: int

definition setCart :: "CartItem list \<Rightarrow> int \<Rightarrow> CartState \<Rightarrow> CartState" where
  "setCart its tot s = s\<lparr>items := its, total' := tot\<rparr>"

definition clearCart :: "CartState \<Rightarrow> CartState" where
  "clearCart s = s\<lparr>items := [], total' := 0\<rparr>"

subsection \<open>Orders and payments (api/orders.ts, api/payments.ts)\<close>

record ShippingAddress =
  full_name :: string
  phone :: string
  address_line1 :: string
  address_line2 :: "string option"
  city :: string
  state :: string
  pincode :: string

record CreateOrderData =
  shipping_address :: ShippingAddress
  payment_method :: string

text \<open>Of the returned \<open>Order\<close> the flow reads only the identifier.\<close>

record Order =
  order_ident :: string
  order_payment_method :: string
  order_status :: string

record RazorpayOrder =
  razorpay_order_id :: string
  amount :: int
  currency :: string
  key_id :: string

record VerifyPaymentData =
  vp_razorpay_order_id :: string
  vp_razorpay_payment_id :: string
  vp_razorpay_signature :: string
  vp_order_id :: string

text \<open>The result tuple the payment UI hands to the handler on success.\<close>

record razorpay_response =
  resp_razorpay_order_id :: string
  resp_razorpay_payment_id :: string
  resp_razorpay_signature :: string

text \<open>
  A thrown or rejected value, with the three properties the catch blocks read:
  \<open>error.code\<close>, \<open>error.description\<close> and \<open>error.response?.data?.detail\<close>.
  The caught value has type \<open>any\<close> and \<open>error.code\<close> is compared with \<open>!==\<close>, which
  tells a string from a number, so the code is a JavaScript value: \<open>undefined\<close>, a string
  or a number. For the two messages \<open>None\<close> stands for \<open>undefined\<close>.
\<close>

datatype js_value = Undefined | Str string | Num int

record js_error =
  err_code :: js_value
  description :: "string option"
  detail :: "string option"

text \<open>\<open>v || d\<close> on an optional string: \<open>undefined\<close> and the empty string are falsy.\<close>

definition or_default :: "string option \<Rightarrow> string \<Rightarrow> string" where
  "or_default v d = (case v of None \<Rightarrow> d | Some s \<Rightarrow> if s = [] then d else s)"

subsection \<open>The options object given to the Razorpay checkout\<close>

record razorpay_options =
  opt_key :: string
  opt_amount :: int
  opt_currency :: string
  opt_name :: string
  opt_description :: string
  opt_image :: "string option"
  opt_order_id :: string
  prefill_name :: string
  prefill_contact :: string
  theme_color :: string

definition COLORS_primary :: string where
  "COLORS_primary = ''#FF6B00''"

subsection \<open>Observable effects\<close>

text \<open>
  Every effect of the flow is recorded, in program order, as an event: the alerts (title,
  message, and the buttons as pairs of label and route replaced on press), the console
  messages, the two state setters, the three REST calls with their bodies, and the
  presentation of the payment UI.
\<close>

datatype event =
    Alert string string "(string \<times> string) list"
  | ConsoleLog string
  | SetLoading bool
  | ClearCart
  | CreateOrder CreateOrderData
  | CreateRazorpayOrder int
  | VerifyPayment VerifyPaymentData
  | AppendScript string
  | RazorpayOpen razorpay_options

subsection \<open>The external collaborators\<close>

datatype Platform_OS = Web | Ios | Android

text \<open>
  What the browser widget does once its script is appended: the script may never load;
  the widget may call \<open>handler\<close> with a success tuple; the user may dismiss it; the payment
  may fail inside it. The options object registers a callback for the first of these only.
\<close>

datatype web_outcome =
    ScriptNeverLoads
  | HandlerCalled razorpay_response
  | WidgetDismissed
  | WidgetPaymentFailed js_error

text \<open>
  One checkout attempt runs against fixed answers of its collaborators: \<open>Inl\<close> is a
  rejected promise (or a thrown error), \<open>Inr\<close> a resolved one. \<open>native_require\<close> is the
  error thrown by \<open>require('react-native-razorpay')\<close>, if any.
\<close>

record env =
  Platform_OS :: Platform_OS
  createOrder_result :: "js_error + Order"
  createRazorpayOrder_result :: "js_error + RazorpayOrder"
  window_defined :: bool
  web_checkout :: web_outcome
  native_require :: "js_error option"
  native_checkout :: "js_error + razorpay_response"
  verifyPayment_result :: "js_error + unit"

section \<open>The checkout screen (app/checkout.tsx)\<close>

datatype PaymentMethod = Cod | Razorpay

text \<open>The string literal of the union type \<open>'cod' | 'razorpay'\<close>.\<close>

fun paymentMethod_literal :: "PaymentMethod \<Rightarrow> string" where
  "paymentMethod_literal Cod = ''cod''"
| "paymentMethod_literal Razorpay = ''razorpay''"

record screen =
  cart :: CartState
  loading :: bool
  paymentMethod :: PaymentMethod
  address :: ShippingAddress

definition shippingFee :: "int \<Rightarrow> int" where
  "shippingFee tot = (if tot > 5000 then 0 else 99)"

definition grandTotal :: "int \<Rightarrow> int" where
  "grandTotal tot = tot + shippingFee tot"

text \<open>\<open>validateAddress\<close> returns the alerts it raised and its boolean result.\<close>

definition validateAddress :: "ShippingAddress \<Rightarrow> event list \<times> bool" where
  "validateAddress a =
     (if full_name a = [] \<or> phone a = [] \<or> address_line1 a = [] \<or>
         city a = [] \<or> state a = [] \<or> pincode a = []
      then ([Alert ''Error'' ''Please fill in all required fields'' []], False)
      else if length (phone a) < 10
      then ([Alert ''Error'' ''Please enter a valid phone number'' []], False)
      else if length (pincode a) \<noteq> 6
      then ([Alert ''Error'' ''Please enter a valid 6-digit pincode'' []], False)
      else ([], True))"

definition verify_data :: "string \<Rightarrow> razorpay_response \<Rightarrow> VerifyPaymentData" where
  "verify_data orderId response =
     \<lparr>vp_razorpay_order_id = resp_razorpay_order_id response,
      vp_razorpay_payment_id = resp_razorpay_payment_id response,
      vp_razorpay_signature = resp_razorpay_signature response,
      vp_order_id = orderId\<rparr>"

text \<open>The success alert of both payment paths; \<open>orderId.slice(0, 8)\<close> is \<open>take 8\<close>.\<close>

definition placed_alert :: "string \<Rightarrow> string \<Rightarrow> event" where
  "placed_alert title orderId =
     Alert title (''Your order #'' @ take 8 orderId @ '' has been placed successfully.'')
       [(''View Order'', ''/order/'' @ orderId)]"

definition web_options :: "RazorpayOrder \<Rightarrow> ShippingAddress \<Rightarrow> razorpay_options" where
  "web_options razorpayOrder a =
     \<lparr>opt_key = key_id razorpayOrder,
      opt_amount = amount razorpayOrder,
      opt_currency = currency razorpayOrder,
      opt_name = ''Constructo'',
      opt_description = ''Construction Materials Purchase'',
      opt_image = None,
      opt_order_id = razorpay_order_id razorpayOrder,
      prefill_name = full_name a,
      prefill_contact = phone a,
      theme_color = COLORS_primary\<rparr>"

definition native_options :: "RazorpayOrder \<Rightarrow> ShippingAddress \<Rightarrow> razorpay_options" where
  "native_options razorpayOrder a =
     \<lparr>opt_key = key_id razorpayOrder,
      opt_amount = amount razorpayOrder,
      opt_currency = currency razorpayOrder,
      opt_name = ''Constructo'',
      opt_description = ''Construction Materials Purchase'',
      opt_image = Some ''https://constructor-app.preview.emergentagent.com/icon.png'',
      opt_order_id = razorpay_order_id razorpayOrder,
      prefill_name = full_name a,
      prefill_contact = phone a,
      theme_color = COLORS_primary\<rparr>"

text \<open>The \<open>handler\<close> callback of the web options (lines 77 to 102).\<close>

definition web_handler ::
  "env \<Rightarrow> string \<Rightarrow> razorpay_response \<Rightarrow> CartState \<Rightarrow> CartState \<times> event list" where
  "web_handler e orderId response c =
     (case verifyPayment_result e of
        Inr _ \<Rightarrow>
          (clearCart c,
           [VerifyPayment (verify_data orderId response), ClearCart,
            placed_alert ''Payment Successful!'' orderId])
      | Inl err \<Rightarrow>
          (c,
           [VerifyPayment (verify_data orderId response),
            ConsoleLog ''Payment verification failed:'',
            Alert ''Payment Verification Failed'' ''Please contact support.'' []]))"

text \<open>
  The web branch returns as soon as the script element is appended; \<open>script.onload\<close> and
  the handler run later. The work left behind is a pending task.
\<close>

datatype pending = ScriptPending razorpay_options string

definition run_pending :: "env \<Rightarrow> pending \<Rightarrow> CartState \<Rightarrow> CartState \<times> event list" where
  "run_pending e p c =
     (case p of ScriptPending options orderId \<Rightarrow>
        (case web_checkout e of
           ScriptNeverLoads \<Rightarrow> (c, [])
         | HandlerCalled response \<Rightarrow>
             (let (c', evs) = web_handler e orderId response c
              in (c', RazorpayOpen options # evs))
         | WidgetDismissed \<Rightarrow> (c, [RazorpayOpen options])
         | WidgetPaymentFailed err \<Rightarrow> (c, [RazorpayOpen options])))"

text \<open>The inner \<open>catch\<close> of the native branch (lines 163 to 168).\<close>

definition native_catch :: "js_error \<Rightarrow> event list" where
  "native_catch err =
     ConsoleLog ''Razorpay error:'' #
     (if err_code err \<noteq> Str ''PAYMENT_CANCELLED''
      then [Alert ''Payment Failed'' (or_default (description err) ''Something went wrong'') []]
      else [])"

definition handleRazorpayPayment ::
  "env \<Rightarrow> screen \<Rightarrow> string \<Rightarrow> CartState \<times> event list \<times> pending option" where
  "handleRazorpayPayment e scr orderId =
     (case createRazorpayOrder_result e of
        Inl err \<Rightarrow>
          (cart scr,
           [CreateRazorpayOrder (grandTotal (total' (cart scr))),
            ConsoleLog ''Error creating Razorpay order:'',
            Alert ''Error'' ''Failed to initiate payment. Please try again.'' []],
           None)
      | Inr razorpayOrder \<Rightarrow>
          (if Platform_OS e = Web then
             (if window_defined e then
                (cart scr,
                 [CreateRazorpayOrder (grandTotal (total' (cart scr))),
                  AppendScript ''https://checkout.razorpay.com/v1/checkout.js''],
                 Some (ScriptPending (web_options razorpayOrder (address scr)) orderId))
              else
                (cart scr, [CreateRazorpayOrder (grandTotal (total' (cart scr)))], None))
           else
             (case native_require e of
                Some err \<Rightarrow>
                  (cart scr,
                   CreateRazorpayOrder (grandTotal (total' (cart scr))) # native_catch err,
                   None)
              | None \<Rightarrow>
                  (case native_checkout e of
                     Inl err \<Rightarrow>
                       (cart scr,
                        [CreateRazorpayOrder (grandTotal (total' (cart scr))),
                         RazorpayOpen (native_options razorpayOrder (address scr))]
                        @ native_catch err,
                        None)
                   | Inr response \<Rightarrow>
                       (case verifyPayment_result e of
                          Inl err \<Rightarrow>
                            (cart scr,
                             [CreateRazorpayOrder (grandTotal (total' (cart scr))),
                              RazorpayOpen (native_options razorpayOrder (address scr)),
                              VerifyPayment (verify_data orderId response)]
                             @ native_catch err,
                             None)
                        | Inr _ \<Rightarrow>
                            (clearCart (cart scr),
                             [CreateRazorpayOrder (grandTotal (total' (cart scr))),
                              RazorpayOpen (native_options razorpayOrder (address scr)),
                              VerifyPayment (verify_data orderId response),
                              ClearCart,
                              placed_alert ''Payment Successful!'' orderId],
                             None))))))"

definition order_data :: "screen \<Rightarrow> CreateOrderData" where
  "order_data scr =
     \<lparr>shipping_address = address scr,
      payment_method = paymentMethod_literal (paymentMethod scr)\<rparr>"

definition handlePlaceOrder :: "env \<Rightarrow> screen \<Rightarrow> screen \<times> event list \<times> pending option" where
  "handlePlaceOrder e scr =
     (case validateAddress (address scr) of
        (alerts, False) \<Rightarrow> (scr, alerts, None)
      | (alerts, True) \<Rightarrow>
          (case createOrder_result e of
             Inl err \<Rightarrow>
               (scr\<lparr>loading := False\<rparr>,
                alerts @
                [SetLoading True, CreateOrder (order_data scr),
                 ConsoleLog ''Error placing order:'',
                 Alert ''Error'' (or_default (detail err) ''Failed to place order'') [],
                 SetLoading False],
                None)
           | Inr order \<Rightarrow>
               (if paymentMethod scr = Razorpay then
                  (case handleRazorpayPayment e scr (order_ident order) of
                     (c, evs, pend) \<Rightarrow>
                       (scr\<lparr>cart := c, loading := False\<rparr>,
                        alerts @ [SetLoading True, CreateOrder (order_data scr)] @ evs
                        @ [SetLoading False],
                        pend))
                else
                  (scr\<lparr>cart := clearCart (cart scr), loading := False\<rparr>,
                   alerts @
                   [SetLoading True, CreateOrder (order_data scr), ClearCart,
                    placed_alert ''Order Placed!'' (order_ident order),
                    SetLoading False],
                   None))))"

text \<open>
  A whole checkout attempt: \<open>handlePlaceOrder\<close> runs to its end, then the callbacks it
  left pending.
\<close>

definition checkout_attempt :: "env \<Rightarrow> screen \<Rightarrow> screen \<times> event list" where
  "checkout_attempt e scr =
     (case handlePlaceOrder e scr of
        (scr1, evs, None) \<Rightarrow> (scr1, evs)
      | (scr1, evs, Some p) \<Rightarrow>
          (case run_pending e p (cart scr1) of
             (c, evs2) \<Rightarrow> (scr1\<lparr>cart := c\<rparr>, evs @ evs2)))"

text \<open>
  What \<open>CheckoutScreen\<close> renders: with no items the empty-cart view, which has no
  place-order button (lines 213 to 228); otherwise the form, whose button is disabled while
  \<open>loading\<close>.
\<close>

datatype view = EmptyCartView | CheckoutForm bool

definition CheckoutScreen :: "screen \<Rightarrow> view" where
  "CheckoutScreen scr =
     (if length (items (cart scr)) = 0 then EmptyCartView else CheckoutForm (loading scr))"

definition press_place_order :: "env \<Rightarrow> screen \<Rightarrow> screen \<times> event list" where
  "press_place_order e scr =
     (case CheckoutScreen scr of
        EmptyCartView \<Rightarrow> (scr, [])
      | CheckoutForm disabled \<Rightarrow> if disabled then (scr, []) else checkout_attempt e scr)"

section \<open>Reading a trace\<close>

fun is_VerifyPayment :: "event \<Rightarrow> bool" where
  "is_VerifyPayment (VerifyPayment d) = True"
| "is_VerifyPayment ev = False"

fun is_CreateOrder :: "event \<Rightarrow> bool" where
  "is_CreateOrder (CreateOrder d) = True"
| "is_CreateOrder ev = False"

fun is_RazorpayOpen :: "event \<Rightarrow> bool" where
  "is_RazorpayOpen (RazorpayOpen d) = True"
| "is_RazorpayOpen ev = False"

fun is_Alert :: "event \<Rightarrow> bool" where
  "is_Alert (Alert t m bs) = True"
| "is_Alert ev = False"

text \<open>The payment stage: intent creation, presentation of the payment UI, verification.\<close>

fun is_payment_call :: "event \<Rightarrow> bool" where
  "is_payment_call (CreateRazorpayOrder a) = True"
| "is_payment_call (RazorpayOpen d) = True"
| "is_payment_call (VerifyPayment d) = True"
| "is_payment_call ev = False"

text \<open>The REST calls.\<close>

fun is_api_call :: "event \<Rightarrow> bool" where
  "is_api_call (CreateOrder d) = True"
| "is_api_call (CreateRazorpayOrder a) = True"
| "is_api_call (VerifyPayment d) = True"
| "is_api_call ev = False"

text \<open>Success handling: clearing the cart, or one of the two success alerts.\<close>

fun is_success_handling :: "event \<Rightarrow> bool" where
  "is_success_handling ClearCart = True"
| "is_success_handling (Alert t m bs) = (t = ''Payment Successful!'' \<or> t = ''Order Placed!'')"
| "is_success_handling ev = False"

fun verify_order_id :: "event \<Rightarrow> string option" where
  "verify_order_id (VerifyPayment d) = Some (vp_order_id d)"
| "verify_order_id ev = None"

fun intent_amount :: "event \<Rightarrow> int option" where
  "intent_amount (CreateRazorpayOrder a) = Some a"
| "intent_amount ev = None"

fun order_payment_method :: "event \<Rightarrow> string option" where
  "order_payment_method (CreateOrder d) = Some (payment_method d)"
| "order_payment_method ev = None"

definition verify_order_ids :: "event list \<Rightarrow> string list" where
  "verify_order_ids evs = List.map_filter verify_order_id evs"

definition intent_amounts :: "event list \<Rightarrow> int list" where
  "intent_amounts evs = List.map_filter intent_amount evs"

definition order_payment_methods :: "event list \<Rightarrow> string list" where
  "order_payment_methods evs = List.map_filter order_payment_method evs"

text \<open>
  Server-side verification succeeded: a verify call was made and its promise resolved.
  A cash-on-delivery order was created: the method is \<open>cod\<close>, the order call was made and
  its promise resolved.
\<close>

definition verification_succeeded :: "env \<Rightarrow> event list \<Rightarrow> bool" where
  "verification_succeeded e evs =
     (list_ex is_VerifyPayment evs \<and> \<not> isl (verifyPayment_result e))"

definition cod_order_created :: "env \<Rightarrow> screen \<Rightarrow> event list \<Rightarrow> bool" where
  "cod_order_created e scr evs =
     (paymentMethod scr = Cod \<and> list_ex is_CreateOrder evs \<and> \<not> isl (createOrder_result e))"

text \<open>
  What the payment UI of the platform answers: on the web the success result is the call
  of \<open>handler\<close>; on a native platform the promise of \<open>RazorpayCheckout.open\<close> resolves.
\<close>

definition gateway_returned_success :: "env \<Rightarrow> bool" where
  "gateway_returned_success e =
     (if Platform_OS e = Web
      then (case web_checkout e of HandlerCalled response \<Rightarrow> True | _ \<Rightarrow> False)
      else \<not> isl (native_checkout e))"

text \<open>
  The payment stage run to its end: the cart it leaves, the events of the awaited call,
  and the events of the callbacks that run after it has returned.
\<close>

definition payment_run ::
  "env \<Rightarrow> screen \<Rightarrow> string \<Rightarrow> CartState \<times> event list \<times> event list" where
  "payment_run e scr orderId =
     (case handleRazorpayPayment e scr orderId of
        (c, evs, None) \<Rightarrow> (c, evs, [])
      | (c, evs, Some p) \<Rightarrow> (case run_pending e p c of (c', evs2) \<Rightarrow> (c', evs, evs2)))"

section \<open>The address rules as the specification words them\<close>

text \<open>
  This second validator is written from the specification, not from the code: a list of
  rules, each with the reason given when it does not hold, checked in order, the first
  failure winning. It is compared with \<open>validateAddress\<close> below.
\<close>

definition required_fields :: "ShippingAddress \<Rightarrow> string list" where
  "required_fields a = [full_name a, phone a, address_line1 a, city a, state a, pincode a]"

definition address_rules :: "((ShippingAddress \<Rightarrow> bool) \<times> string) list" where
  "address_rules =
     [(\<lambda>a. list_all (\<lambda>f. f \<noteq> []) (required_fields a), ''Please fill in all required fields''),
      (\<lambda>a. length (phone a) \<ge> 10, ''Please enter a valid phone number''),
      (\<lambda>a. length (pincode a) = 6, ''Please enter a valid 6-digit pincode'')]"

definition first_failure :: "ShippingAddress \<Rightarrow> string option" where
  "first_failure a = map_option snd (find (\<lambda>(holds, reason). \<not> holds a) address_rules)"

section \<open>Concrete inputs\<close>

definition addr_ok :: ShippingAddress where
  "addr_ok = \<lparr>full_name = ''Asha Rao'', phone = ''9876543210'',
     address_line1 = ''12 MG Road'', address_line2 = Some [], city = ''Pune'',
     state = ''MH'', pincode = ''411001''\<rparr>"

definition addr_short_phone :: ShippingAddress where
  "addr_short_phone = addr_ok\<lparr>phone := ''987654321''\<rparr>"

definition cement :: CartItem where
  "cement = \<lparr>product_id = ''p1'', quantity = 10,
     product = \<lparr>id' = ''p1'', name = ''Cement 50kg'', price = 400, image' = ''cement.png'',
       brand = None\<rparr>\<rparr>"

definition scr_online :: screen where
  "scr_online = \<lparr>cart = \<lparr>items = [cement], total' = 4000\<rparr>, loading = False,
     paymentMethod = Razorpay, address = addr_ok\<rparr>"

definition scr_empty_cart :: screen where
  "scr_empty_cart = \<lparr>cart = \<lparr>items = [], total' = 0\<rparr>, loading = False,
     paymentMethod = Cod, address = addr_ok\<rparr>"

definition order_1 :: Order where
  "order_1 = \<lparr>order_ident = ''6f1c2a9e-77aa'', order_payment_method = ''razorpay'',
     order_status = ''pending''\<rparr>"

definition intent_1 :: RazorpayOrder where
  "intent_1 = \<lparr>razorpay_order_id = ''order_R1'', amount = 409900, currency = ''INR'',
     key_id = ''rzp_test_1''\<rparr>"

definition response_1 :: razorpay_response where
  "response_1 = \<lparr>resp_razorpay_order_id = ''order_R1'', resp_razorpay_payment_id = ''pay_1'',
     resp_razorpay_signature = ''sig''\<rparr>"

text \<open>The rejection of an HTTP call, as the HTTP client raises it: no \<open>description\<close>.\<close>

definition bad_request :: js_error where
  "bad_request = \<lparr>err_code = Str ''ERR_BAD_REQUEST'', description = None,
     detail = Some ''Invalid payment signature''\<rparr>"

definition cancelled :: js_error where
  "cancelled = \<lparr>err_code = Str ''PAYMENT_CANCELLED'', description = Some ''Payment cancelled'',
     detail = None\<rparr>"

text \<open>
  The rejection with which the native checkout module reports that the user closed the
  payment modal: a numeric \<open>code\<close> and a \<open>description\<close>.
\<close>

definition cancelled_by_user :: "int \<Rightarrow> js_error" where
  "cancelled_by_user n = \<lparr>err_code = Num n, description = Some ''Payment cancelled by user'',
     detail = None\<rparr>"

definition env_native :: env where
  "env_native = \<lparr>Platform_OS = Android, createOrder_result = Inr order_1,
     createRazorpayOrder_result = Inr intent_1, window_defined = False,
     web_checkout = ScriptNeverLoads, native_require = None,
     native_checkout = Inr response_1, verifyPayment_result = Inr ()\<rparr>"

definition env_web :: env where
  "env_web = \<lparr>Platform_OS = Web, createOrder_result = Inr order_1,
     createRazorpayOrder_result = Inr intent_1, window_defined = True,
     web_checkout = HandlerCalled response_1, native_require = None,
     native_checkout = Inl cancelled, verifyPayment_result = Inr ()\<rparr>"

section \<open>The outcomes of a checkout attempt\<close>

lemmas input_defs = addr_ok_def addr_short_phone_def cement_def scr_online_def
  scr_empty_cart_def order_1_def intent_1_def response_1_def bad_request_def cancelled_def
  cancelled_by_user_def
  env_native_def env_web_def

lemmas run_defs = checkout_attempt_def handlePlaceOrder_def handleRazorpayPayment_def
  run_pending_def web_handler_def native_catch_def validateAddress_def order_data_def
  verify_data_def placed_alert_def web_options_def native_options_def clearCart_def
  grandTotal_def shippingFee_def or_default_def COLORS_primary_def

lemmas payment_defs = payment_run_def handleRazorpayPayment_def run_pending_def
  web_handler_def

lemmas ev_simps = verification_succeeded_def cod_order_created_def native_catch_def
  clearCart_def

lemma placed_alert_simps [simp]:
  "placed_alert t oid \<noteq> ClearCart" "ClearCart \<noteq> placed_alert t oid"
  "is_VerifyPayment (placed_alert t oid) = False"
  "is_CreateOrder (placed_alert t oid) = False"
  "is_RazorpayOpen (placed_alert t oid) = False"
  "is_Alert (placed_alert t oid) = True"
  "is_payment_call (placed_alert t oid) = False"
  "is_api_call (placed_alert t oid) = False"
  "verify_order_id (placed_alert t oid) = None"
  "intent_amount (placed_alert t oid) = None"
  "order_payment_method (placed_alert t oid) = None"
  by (simp_all add: placed_alert_def)

lemma map_filter_append [simp]:
  "List.map_filter f (xs @ ys) = List.map_filter f xs @ List.map_filter f ys"
  by (simp add: List.map_filter_def)

lemma validateAddress_cases:
  "validateAddress a = ([], True) \<or> (\<exists>m. validateAddress a = ([Alert ''Error'' m []], False))"
  by (simp add: validateAddress_def)

lemma valid_no_alerts:
  "snd (validateAddress a) \<Longrightarrow> validateAddress a = ([], True)"
  using validateAddress_cases [of a] by auto

lemma attempt_invalid:
  assumes "\<not> snd (validateAddress (address scr))"
  shows "checkout_attempt e scr = (scr, fst (validateAddress (address scr)))"
proof -
  obtain alerts where "validateAddress (address scr) = (alerts, False)"
    using assms by (cases "validateAddress (address scr)") auto
  then show ?thesis by (simp add: checkout_attempt_def handlePlaceOrder_def)
qed

lemma attempt_order_failed:
  assumes "snd (validateAddress (address scr))" "createOrder_result e = Inl err"
  shows "checkout_attempt e scr =
    (scr\<lparr>loading := False\<rparr>,
     [SetLoading True, CreateOrder (order_data scr), ConsoleLog ''Error placing order:'',
      Alert ''Error'' (or_default (detail err) ''Failed to place order'') [],
      SetLoading False])"
  using assms
  by (simp add: checkout_attempt_def handlePlaceOrder_def valid_no_alerts)

lemma attempt_cod:
  assumes "snd (validateAddress (address scr))" "createOrder_result e = Inr order"
    "paymentMethod scr = Cod"
  shows "checkout_attempt e scr =
    (scr\<lparr>cart := clearCart (cart scr), loading := False\<rparr>,
     [SetLoading True, CreateOrder (order_data scr), ClearCart,
      placed_alert ''Order Placed!'' (order_ident order), SetLoading False])"
  using assms
  by (simp add: checkout_attempt_def handlePlaceOrder_def valid_no_alerts)

lemma attempt_online:
  assumes "snd (validateAddress (address scr))" "createOrder_result e = Inr order"
    "paymentMethod scr = Razorpay"
  shows "checkout_attempt e scr =
    (scr\<lparr>cart := fst (payment_run e scr (order_ident order)), loading := False\<rparr>,
     [SetLoading True, CreateOrder (order_data scr)]
     @ fst (snd (payment_run e scr (order_ident order)))
     @ [SetLoading False]
     @ snd (snd (payment_run e scr (order_ident order))))"
  using assms
  by (simp add: checkout_attempt_def handlePlaceOrder_def valid_no_alerts payment_run_def
      split: prod.split option.split)

text \<open>Every attempt ends in one of four ways; the online one is refined below.\<close>

lemma checkout_cases [case_names invalid order_failed cod online]:
  obtains
    (invalid) m where
      "validateAddress (address scr) = ([Alert ''Error'' m []], False)"
      "checkout_attempt e scr = (scr, [Alert ''Error'' m []])"
  | (order_failed) err where
      "validateAddress (address scr) = ([], True)"
      "createOrder_result e = Inl err"
      "checkout_attempt e scr =
         (scr\<lparr>loading := False\<rparr>,
          [SetLoading True, CreateOrder (order_data scr), ConsoleLog ''Error placing order:'',
           Alert ''Error'' (or_default (detail err) ''Failed to place order'') [],
           SetLoading False])"
  | (cod) order where
      "validateAddress (address scr) = ([], True)"
      "createOrder_result e = Inr order"
      "paymentMethod scr = Cod"
      "checkout_attempt e scr =
         (scr\<lparr>cart := clearCart (cart scr), loading := False\<rparr>,
          [SetLoading True, CreateOrder (order_data scr), ClearCart,
           placed_alert ''Order Placed!'' (order_ident order), SetLoading False])"
  | (online) order where
      "validateAddress (address scr) = ([], True)"
      "createOrder_result e = Inr order"
      "paymentMethod scr = Razorpay"
      "checkout_attempt e scr =
         (scr\<lparr>cart := fst (payment_run e scr (order_ident order)), loading := False\<rparr>,
          [SetLoading True, CreateOrder (order_data scr)]
          @ fst (snd (payment_run e scr (order_ident order)))
          @ [SetLoading False]
          @ snd (snd (payment_run e scr (order_ident order))))"
proof (cases "snd (validateAddress (address scr))")
  case False
  then obtain m where m: "validateAddress (address scr) = ([Alert ''Error'' m []], False)"
    using validateAddress_cases [of "address scr"] by auto
  with False show ?thesis using invalid [of m] attempt_invalid [of scr e] by simp
next
  case True
  then have v: "validateAddress (address scr) = ([], True)" by (rule valid_no_alerts)
  show ?thesis
  proof (cases "createOrder_result e")
    case (Inl err)
    then show ?thesis using order_failed v attempt_order_failed [OF True] by blast
  next
    case (Inr order)
    show ?thesis
    proof (cases "paymentMethod scr")
      case Cod
      then show ?thesis using cod v Inr attempt_cod [OF True] by blast
    next
      case Razorpay
      then show ?thesis using online v Inr attempt_online [OF True] by blast
    qed
  qed
qed

subsection \<open>The payment stage, outcome by outcome\<close>

lemma pay_intent_failed:
  assumes "createRazorpayOrder_result e = Inl err"
  shows "payment_run e scr oid =
    (cart scr,
     [CreateRazorpayOrder (grandTotal (total' (cart scr))),
      ConsoleLog ''Error creating Razorpay order:'',
      Alert ''Error'' ''Failed to initiate payment. Please try again.'' []], [])"
  using assms by (simp add: payment_defs)

lemma pay_web_no_window:
  assumes "createRazorpayOrder_result e = Inr rz" "Platform_OS e = Web" "\<not> window_defined e"
  shows "payment_run e scr oid =
    (cart scr, [CreateRazorpayOrder (grandTotal (total' (cart scr)))], [])"
  using assms by (simp add: payment_defs)

lemma pay_web_never_loads:
  assumes "createRazorpayOrder_result e = Inr rz" "Platform_OS e = Web" "window_defined e"
    "web_checkout e = ScriptNeverLoads"
  shows "payment_run e scr oid =
    (cart scr,
     [CreateRazorpayOrder (grandTotal (total' (cart scr))),
      AppendScript ''https://checkout.razorpay.com/v1/checkout.js''], [])"
  using assms by (simp add: payment_defs)

lemma pay_web_dismissed:
  assumes "createRazorpayOrder_result e = Inr rz" "Platform_OS e = Web" "window_defined e"
    "web_checkout e = WidgetDismissed"
  shows "payment_run e scr oid =
    (cart scr,
     [CreateRazorpayOrder (grandTotal (total' (cart scr))),
      AppendScript ''https://checkout.razorpay.com/v1/checkout.js''],
     [RazorpayOpen (web_options rz (address scr))])"
  using assms by (simp add: payment_defs)

lemma pay_web_failed:
  assumes "createRazorpayOrder_result e = Inr rz" "Platform_OS e = Web" "window_defined e"
    "web_checkout e = WidgetPaymentFailed err"
  shows "payment_run e scr oid =
    (cart scr,
     [CreateRazorpayOrder (grandTotal (total' (cart scr))),
      AppendScript ''https://checkout.razorpay.com/v1/checkout.js''],
     [RazorpayOpen (web_options rz (address scr))])"
  using assms by (simp add: payment_defs)

lemma pay_web_verified:
  assumes "createRazorpayOrder_result e = Inr rz" "Platform_OS e = Web" "window_defined e"
    "web_checkout e = HandlerCalled response" "verifyPayment_result e = Inr u"
  shows "payment_run e scr oid =
    (clearCart (cart scr),
     [CreateRazorpayOrder (grandTotal (total' (cart scr))),
      AppendScript ''https://checkout.razorpay.com/v1/checkout.js''],
     [RazorpayOpen (web_options rz (address scr)),
      VerifyPayment (verify_data oid response), ClearCart,
      placed_alert ''Payment Successful!'' oid])"
  using assms by (simp add: payment_defs)

lemma pay_web_rejected:
  assumes "createRazorpayOrder_result e = Inr rz" "Platform_OS e = Web" "window_defined e"
    "web_checkout e = HandlerCalled response" "verifyPayment_result e = Inl err"
  shows "payment_run e scr oid =
    (cart scr,
     [CreateRazorpayOrder (grandTotal (total' (cart scr))),
      AppendScript ''https://checkout.razorpay.com/v1/checkout.js''],
     [RazorpayOpen (web_options rz (address scr)),
      VerifyPayment (verify_data oid response),
      ConsoleLog ''Payment verification failed:'',
      Alert ''Payment Verification Failed'' ''Please contact support.'' []])"
  using assms by (simp add: payment_defs)

lemma pay_native_no_module:
  assumes "createRazorpayOrder_result e = Inr rz" "Platform_OS e \<noteq> Web"
    "native_require e = Some err"
  shows "payment_run e scr oid =
    (cart scr,
     CreateRazorpayOrder (grandTotal (total' (cart scr))) # native_catch err, [])"
  using assms by (simp add: payment_defs)

lemma pay_native_ui_error:
  assumes "createRazorpayOrder_result e = Inr rz" "Platform_OS e \<noteq> Web"
    "native_require e = None" "native_checkout e = Inl err"
  shows "payment_run e scr oid =
    (cart scr,
     [CreateRazorpayOrder (grandTotal (total' (cart scr))),
      RazorpayOpen (native_options rz (address scr))] @ native_catch err, [])"
  using assms by (simp add: payment_defs)

lemma pay_native_rejected:
  assumes "createRazorpayOrder_result e = Inr rz" "Platform_OS e \<noteq> Web"
    "native_require e = None" "native_checkout e = Inr response"
    "verifyPayment_result e = Inl err"
  shows "payment_run e scr oid =
    (cart scr,
     [CreateRazorpayOrder (grandTotal (total' (cart scr))),
      RazorpayOpen (native_options rz (address scr)),
      VerifyPayment (verify_data oid response)] @ native_catch err, [])"
  using assms by (simp add: payment_defs)

lemma pay_native_verified:
  assumes "createRazorpayOrder_result e = Inr rz" "Platform_OS e \<noteq> Web"
    "native_require e = None" "native_checkout e = Inr response"
    "verifyPayment_result e = Inr u"
  shows "payment_run e scr oid =
    (clearCart (cart scr),
     [CreateRazorpayOrder (grandTotal (total' (cart scr))),
      RazorpayOpen (native_options rz (address scr)),
      VerifyPayment (verify_data oid response), ClearCart,
      placed_alert ''Payment Successful!'' oid], [])"
  using assms by (simp add: payment_defs)

lemma payment_run_cases [case_names intent_failed web_no_window web_never_loads
    web_dismissed web_failed web_verified web_rejected native_no_module native_ui_error
    native_rejected native_verified]:
  obtains
    (intent_failed) err where
      "createRazorpayOrder_result e = Inl err"
      "payment_run e scr oid =
        (cart scr,
         [CreateRazorpayOrder (grandTotal (total' (cart scr))),
          ConsoleLog ''Error creating Razorpay order:'',
          Alert ''Error'' ''Failed to initiate payment. Please try again.'' []], [])"
  | (web_no_window)
      "Platform_OS e = Web" "\<not> window_defined e"
      "payment_run e scr oid =
        (cart scr, [CreateRazorpayOrder (grandTotal (total' (cart scr)))], [])"
  | (web_never_loads)
      "Platform_OS e = Web" "window_defined e" "web_checkout e = ScriptNeverLoads"
      "payment_run e scr oid =
        (cart scr,
         [CreateRazorpayOrder (grandTotal (total' (cart scr))),
          AppendScript ''https://checkout.razorpay.com/v1/checkout.js''], [])"
  | (web_dismissed) rz where
      "Platform_OS e = Web" "window_defined e" "web_checkout e = WidgetDismissed"
      "payment_run e scr oid =
        (cart scr,
         [CreateRazorpayOrder (grandTotal (total' (cart scr))),
          AppendScript ''https://checkout.razorpay.com/v1/checkout.js''],
         [RazorpayOpen (web_options rz (address scr))])"
  | (web_failed) rz err where
      "Platform_OS e = Web" "window_defined e" "web_checkout e = WidgetPaymentFailed err"
      "payment_run e scr oid =
        (cart scr,
         [CreateRazorpayOrder (grandTotal (total' (cart scr))),
          AppendScript ''https://checkout.razorpay.com/v1/checkout.js''],
         [RazorpayOpen (web_options rz (address scr))])"
  | (web_verified) rz response u where
      "Platform_OS e = Web" "window_defined e"
      "web_checkout e = HandlerCalled response" "verifyPayment_result e = Inr u"
      "payment_run e scr oid =
        (clearCart (cart scr),
         [CreateRazorpayOrder (grandTotal (total' (cart scr))),
          AppendScript ''https://checkout.razorpay.com/v1/checkout.js''],
         [RazorpayOpen (web_options rz (address scr)),
          VerifyPayment (verify_data oid response), ClearCart,
          placed_alert ''Payment Successful!'' oid])"
  | (web_rejected) rz response err where
      "Platform_OS e = Web" "window_defined e"
      "web_checkout e = HandlerCalled response" "verifyPayment_result e = Inl err"
      "payment_run e scr oid =
        (cart scr,
         [CreateRazorpayOrder (grandTotal (total' (cart scr))),
          AppendScript ''https://checkout.razorpay.com/v1/checkout.js''],
         [RazorpayOpen (web_options rz (address scr)),
          VerifyPayment (verify_data oid response),
          ConsoleLog ''Payment verification failed:'',
          Alert ''Payment Verification Failed'' ''Please contact support.'' []])"
  | (native_no_module) err where
      "Platform_OS e \<noteq> Web" "native_require e = Some err"
      "payment_run e scr oid =
        (cart scr,
         CreateRazorpayOrder (grandTotal (total' (cart scr))) # native_catch err, [])"
  | (native_ui_error) rz err where
      "Platform_OS e \<noteq> Web" "native_require e = None" "native_checkout e = Inl err"
      "payment_run e scr oid =
        (cart scr,
         [CreateRazorpayOrder (grandTotal (total' (cart scr))),
          RazorpayOpen (native_options rz (address scr))] @ native_catch err, [])"
  | (native_rejected) rz response err where
      "Platform_OS e \<noteq> Web" "native_require e = None"
      "native_checkout e = Inr response" "verifyPayment_result e = Inl err"
      "payment_run e scr oid =
        (cart scr,
         [CreateRazorpayOrder (grandTotal (total' (cart scr))),
          RazorpayOpen (native_options rz (address scr)),
          VerifyPayment (verify_data oid response)] @ native_catch err, [])"
  | (native_verified) rz response u where
      "Platform_OS e \<noteq> Web" "native_require e = None"
      "native_checkout e = Inr response" "verifyPayment_result e = Inr u"
      "payment_run e scr oid =
        (clearCart (cart scr),
         [CreateRazorpayOrder (grandTotal (total' (cart scr))),
          RazorpayOpen (native_options rz (address scr)),
          VerifyPayment (verify_data oid response), ClearCart,
          placed_alert ''Payment Successful!'' oid], [])"
proof (cases "createRazorpayOrder_result e")
  case (Inl err)
  then show ?thesis using intent_failed pay_intent_failed by blast
next
  case rz: (Inr rz)
  show ?thesis
  proof (cases "Platform_OS e = Web")
    case web: True
    show ?thesis
    proof (cases "window_defined e")
      case False
      then show ?thesis using web_no_window web pay_web_no_window [OF rz web] by blast
    next
      case win: True
      show ?thesis
      proof (cases "web_checkout e")
        case ScriptNeverLoads
        then show ?thesis
          using web_never_loads web win pay_web_never_loads [OF rz web win] by blast
      next
        case (HandlerCalled response)
        show ?thesis
        proof (cases "verifyPayment_result e")
          case (Inl err)
          then show ?thesis
            using web_rejected web win HandlerCalled
              pay_web_rejected [OF rz web win HandlerCalled] by blast
        next
          case (Inr u)
          then show ?thesis
            using web_verified web win HandlerCalled
              pay_web_verified [OF rz web win HandlerCalled] by blast
        qed
      next
        case WidgetDismissed
        then show ?thesis
          using web_dismissed web win pay_web_dismissed [OF rz web win] by blast
      next
        case (WidgetPaymentFailed err)
        then show ?thesis
          using web_failed web win pay_web_failed [OF rz web win] by blast
      qed
    qed
  next
    case nat: False
    show ?thesis
    proof (cases "native_require e")
      case (Some err)
      then show ?thesis
        using native_no_module nat pay_native_no_module [OF rz nat] by blast
    next
      case req: None
      show ?thesis
      proof (cases "native_checkout e")
        case (Inl err)
        then show ?thesis
          using native_ui_error nat req pay_native_ui_error [OF rz nat req] by blast
      next
        case resp: (Inr response)
        show ?thesis
        proof (cases "verifyPayment_result e")
          case (Inl err)
          then show ?thesis
            using native_rejected nat req resp pay_native_rejected [OF rz nat req resp]
            by blast
        next
          case (Inr u)
          then show ?thesis
            using native_verified nat req resp pay_native_verified [OF rz nat req resp]
            by blast
        qed
      qed
    qed
  qed
qed

section \<open>The claims\<close>

text \<open>
  C1. The cart is cleared if and only if server-side verification succeeds on the online
  path or a cash-on-delivery order is created: in every checkout attempt \<open>clearCart\<close> is
  called once in exactly these two cases, and then the cart is empty with total zero; in
  every other outcome (validation failure, order-creation failure, intent-creation failure,
  gateway error, cancellation, verification failure) it is not called and the cart is the
  one the attempt started with.
\<close>

theorem cart_cleared_iff:
  "count_list (snd (checkout_attempt e scr)) ClearCart =
     (if verification_succeeded e (snd (checkout_attempt e scr))
         \<or> cod_order_created e scr (snd (checkout_attempt e scr)) then 1 else 0)
   \<and> cart (fst (checkout_attempt e scr)) =
     (if verification_succeeded e (snd (checkout_attempt e scr))
         \<or> cod_order_created e scr (snd (checkout_attempt e scr))
      then \<lparr>items = [], total' = 0\<rparr> else cart scr)"
proof (cases rule: checkout_cases [of scr e])
  case (invalid m)
  then show ?thesis by (simp add: ev_simps)
next
  case (order_failed err)
  then show ?thesis by (simp add: ev_simps)
next
  case (cod order)
  then show ?thesis by (simp add: ev_simps)
next
  case (online order)
  show ?thesis
    by (cases rule: payment_run_cases [of e scr "order_ident order"])
       (simp_all add: online ev_simps)
qed

theorem cart_cleared_iff_witness:
  "count_list (snd (checkout_attempt env_web scr_online)) ClearCart = 1
   \<and> cart (fst (checkout_attempt env_web scr_online)) = \<lparr>items = [], total' = 0\<rparr>
   \<and> count_list (snd (checkout_attempt (env_web\<lparr>web_checkout := WidgetDismissed\<rparr>) scr_online))
        ClearCart = 0"
  using cart_cleared_iff [of env_web scr_online]
    cart_cleared_iff [of "env_web\<lparr>web_checkout := WidgetDismissed\<rparr>" scr_online]
  by (simp add: input_defs run_defs verification_succeeded_def cod_order_created_def)

text \<open>
  C2. In an online-payment attempt a verify call is made if and only if the payment UI was
  presented and returned a success result: there is one verify call in that case and none
  otherwise (so none after a cancellation or a gateway error). The verify call comes after
  the presentation of the payment UI, and no success handling (clearing the cart, a
  success alert) comes before the verify call.
\<close>

theorem verify_iff_gateway_success:
  assumes "paymentMethod scr = Razorpay"
  shows "length (filter is_VerifyPayment (snd (checkout_attempt e scr))) =
      (if list_ex is_RazorpayOpen (snd (checkout_attempt e scr)) \<and> gateway_returned_success e
       then 1 else 0)
    \<and> \<not> list_ex is_success_handling
         (takeWhile (\<lambda>ev. \<not> is_VerifyPayment ev) (snd (checkout_attempt e scr)))
    \<and> (list_ex is_VerifyPayment (snd (checkout_attempt e scr)) \<longrightarrow>
         list_ex is_RazorpayOpen
           (takeWhile (\<lambda>ev. \<not> is_VerifyPayment ev) (snd (checkout_attempt e scr))))"
proof (cases rule: checkout_cases [of scr e])
  case (invalid m)
  then show ?thesis by (simp add: ev_simps)
next
  case (order_failed err)
  then show ?thesis by (simp add: ev_simps)
next
  case (cod order)
  then show ?thesis using assms by simp
next
  case (online order)
  show ?thesis
    by (cases rule: payment_run_cases [of e scr "order_ident order"])
       (auto simp add: online ev_simps gateway_returned_success_def placed_alert_def)
qed

theorem verify_iff_gateway_success_witness:
  "paymentMethod scr_online = Razorpay
   \<and> length (filter is_VerifyPayment (snd (checkout_attempt env_native scr_online))) = 1
   \<and> list_ex is_VerifyPayment (snd (checkout_attempt env_native scr_online))
   \<and> takeWhile (\<lambda>ev. \<not> is_VerifyPayment ev) (snd (checkout_attempt env_native scr_online)) =
       [SetLoading True, CreateOrder (order_data scr_online), CreateRazorpayOrder 4099,
        RazorpayOpen (native_options intent_1 addr_ok)]
   \<and> length (filter is_VerifyPayment
       (snd (checkout_attempt (env_native\<lparr>native_checkout := Inl cancelled\<rparr>) scr_online))) = 0"
  using verify_iff_gateway_success [of scr_online env_native]
    verify_iff_gateway_success [of scr_online "env_native\<lparr>native_checkout := Inl cancelled\<rparr>"]
  by (simp add: input_defs run_defs gateway_returned_success_def)

text \<open>
  C3. The order exists before the payment stage: whenever an attempt makes a payment call
  (intent creation, presentation of the payment UI, verification), the order-creation call
  was made before the first of them and had returned an order, whose identifier is the one
  every verify call carries. Order creation does not depend on the payment: with a valid
  address the attempt makes exactly one order-creation call, whatever the payment
  collaborators answer.
\<close>

theorem order_exists_before_payment:
  "(snd (validateAddress (address scr)) \<longrightarrow>
      filter is_CreateOrder (snd (checkout_attempt e scr)) = [CreateOrder (order_data scr)])
   \<and> (list_ex is_payment_call (snd (checkout_attempt e scr)) \<longrightarrow>
        (\<exists>order. createOrder_result e = Inr order
           \<and> set (verify_order_ids (snd (checkout_attempt e scr))) \<subseteq> {order_ident order})
        \<and> list_ex is_CreateOrder
            (takeWhile (\<lambda>ev. \<not> is_payment_call ev) (snd (checkout_attempt e scr))))"
proof (cases rule: checkout_cases [of scr e])
  case (invalid m)
  then show ?thesis by simp
next
  case (order_failed err)
  then show ?thesis by simp
next
  case (cod order)
  then show ?thesis by simp
next
  case (online order)
  show ?thesis
    by (cases rule: payment_run_cases [of e scr "order_ident order"])
       (simp_all add: online native_catch_def verify_order_ids_def verify_data_def)
qed

theorem order_exists_before_payment_witness:
  "snd (validateAddress (address scr_online))
   \<and> list_ex is_payment_call (snd (checkout_attempt env_native scr_online))
   \<and> filter is_CreateOrder (snd (checkout_attempt env_native scr_online))
       = [CreateOrder (order_data scr_online)]
   \<and> verify_order_ids (snd (checkout_attempt env_native scr_online)) = [order_ident order_1]"
  using order_exists_before_payment [of scr_online env_native]
  by (simp add: input_defs run_defs verify_order_ids_def)

text \<open>
  C4. When the payment UI succeeds and the server rejects the verification, the flow is
  to show the alert "Payment Verification Failed / Please contact support." on both
  platforms. The web handler does; on a native platform the rejection of the verify call
  is caught by the catch block of the payment UI and shown as the generic
  "Payment Failed / Something went wrong". On both platforms the cart is left as it was
  and no success alert is shown.
\<close>

theorem native_rejection_reported_as_payment_failed:
  "filter is_Alert
     (snd (checkout_attempt (env_native\<lparr>verifyPayment_result := Inl bad_request\<rparr>) scr_online))
     = [Alert ''Payment Failed'' ''Something went wrong'' []]
   \<and> filter is_Alert
     (snd (checkout_attempt (env_web\<lparr>verifyPayment_result := Inl bad_request\<rparr>) scr_online))
     = [Alert ''Payment Verification Failed'' ''Please contact support.'' []]
   \<and> cart (fst (checkout_attempt (env_native\<lparr>verifyPayment_result := Inl bad_request\<rparr>)
        scr_online)) = cart scr_online
   \<and> cart (fst (checkout_attempt (env_web\<lparr>verifyPayment_result := Inl bad_request\<rparr>)
        scr_online)) = cart scr_online"
  by (simp add: input_defs run_defs)

text \<open>
  C5, as the claim states it, fails: an empty cart is not rejected with a validation error.
  The screen renders the empty-cart view, which has no place-order button, so with an
  empty cart nothing is raised at all: no alert, and no call either.
\<close>

theorem empty_cart_counterexample:
  "items (cart scr_empty_cart) = []
   \<and> CheckoutScreen scr_empty_cart = EmptyCartView
   \<and> snd (press_place_order env_native scr_empty_cart) = []
   \<and> \<not> list_ex is_Alert (snd (press_place_order env_native scr_empty_cart))"
  by (simp add: input_defs press_place_order_def CheckoutScreen_def)

text \<open>
  C5, amended. Whenever the cart is empty or the shipping address is invalid, placing an
  order from the screen makes no network call and changes no state. With an invalid
  address \<open>handlePlaceOrder\<close> raises the one validation alert and does nothing else. With
  an empty cart no validation error is raised: the screen renders the empty-cart view,
  which has no place-order button, so \<open>handlePlaceOrder\<close> is not called.
\<close>

theorem no_order_call_when_empty_or_invalid:
  "(items (cart scr) = [] \<or> \<not> snd (validateAddress (address scr)) \<longrightarrow>
      \<not> list_ex is_api_call (snd (press_place_order e scr))
      \<and> fst (press_place_order e scr) = scr)
   \<and> (items (cart scr) = [] \<longrightarrow> press_place_order e scr = (scr, []))
   \<and> (\<not> snd (validateAddress (address scr)) \<longrightarrow>
      handlePlaceOrder e scr = (scr, fst (validateAddress (address scr)), None)
      \<and> (\<exists>reason. fst (validateAddress (address scr)) = [Alert ''Error'' reason []])
      \<and> checkout_attempt e scr = (scr, fst (validateAddress (address scr))))
   \<and> (\<not> snd (validateAddress (address scr)) \<and> items (cart scr) \<noteq> [] \<and> \<not> loading scr \<longrightarrow>
      press_place_order e scr = (scr, fst (validateAddress (address scr))))"
proof -
  have a: "handlePlaceOrder e scr = (scr, fst (validateAddress (address scr)), None)"
    if "\<not> snd (validateAddress (address scr))"
    using that by (cases "validateAddress (address scr)") (simp add: handlePlaceOrder_def)
  have b: "\<exists>reason. fst (validateAddress (address scr)) = [Alert ''Error'' reason []]"
    if "\<not> snd (validateAddress (address scr))"
    using that validateAddress_cases [of "address scr"] by auto
  have c: "press_place_order e scr = (scr, [])" if "items (cart scr) = []"
    using that by (simp add: press_place_order_def CheckoutScreen_def)
  have d: "checkout_attempt e scr = (scr, fst (validateAddress (address scr)))"
    if "\<not> snd (validateAddress (address scr))"
    using that by (rule attempt_invalid)
  have p: "press_place_order e scr = (scr, []) \<or> press_place_order e scr = checkout_attempt e scr"
    by (simp add: press_place_order_def split: view.split)
  have f: "\<not> list_ex is_api_call (snd (press_place_order e scr))
      \<and> fst (press_place_order e scr) = scr"
    if "\<not> snd (validateAddress (address scr))"
  proof -
    from b [OF that] obtain reason
      where r: "fst (validateAddress (address scr)) = [Alert ''Error'' reason []]" ..
    from p show ?thesis
    proof
      assume "press_place_order e scr = (scr, [])"
      then show ?thesis by simp
    next
      assume "press_place_order e scr = checkout_attempt e scr"
      then show ?thesis using d [OF that] r by simp
    qed
  qed
  have g: "press_place_order e scr = (scr, fst (validateAddress (address scr)))"
    if "\<not> snd (validateAddress (address scr))" "items (cart scr) \<noteq> []" "\<not> loading scr"
    using that d by (simp add: press_place_order_def CheckoutScreen_def)
  show ?thesis using a b c d f g by auto
qed

theorem no_order_call_when_empty_or_invalid_witness:
  "\<not> snd (validateAddress (address (scr_online\<lparr>address := addr_short_phone\<rparr>)))
   \<and> items (cart (scr_online\<lparr>address := addr_short_phone\<rparr>)) \<noteq> []
   \<and> \<not> loading (scr_online\<lparr>address := addr_short_phone\<rparr>)
   \<and> press_place_order env_native (scr_online\<lparr>address := addr_short_phone\<rparr>) =
       (scr_online\<lparr>address := addr_short_phone\<rparr>,
        [Alert ''Error'' ''Please enter a valid phone number'' []])
   \<and> handlePlaceOrder env_native (scr_online\<lparr>address := addr_short_phone\<rparr>) =
       (scr_online\<lparr>address := addr_short_phone\<rparr>,
        [Alert ''Error'' ''Please enter a valid phone number'' []], None)
   \<and> items (cart scr_empty_cart) = []
   \<and> press_place_order env_native scr_empty_cart = (scr_empty_cart, [])"
  using no_order_call_when_empty_or_invalid
          [of "scr_online\<lparr>address := addr_short_phone\<rparr>" env_native]
        no_order_call_when_empty_or_invalid [of scr_empty_cart env_native]
  by (simp add: input_defs validateAddress_def)

text \<open>
  C6. The address validator checks its rules in order and the first failure wins: its
  result is a function of the address alone, it is the result of the rule list of the
  specification, the reason being reported by the one alert it raises, and it makes no
  network call and writes no state.
\<close>

theorem validateAddress_first_failure:
  "validateAddress a =
     (case first_failure a of
        None \<Rightarrow> ([], True)
      | Some reason \<Rightarrow> ([Alert ''Error'' reason []], False))"
  by (simp add: validateAddress_def first_failure_def address_rules_def required_fields_def)

text \<open>
  C7. A cancellation of the payment UI is to be silent, and the catch block of the native
  branch aims at that: it skips its alert when \<open>error.code\<close> is the string
  \<open>'PAYMENT_CANCELLED'\<close>. The native checkout module reports a cancellation with a numeric
  \<open>code\<close>, which \<open>!==\<close> never finds equal to that string, so the alert "Payment Failed" is
  shown with the description of the cancellation. The other parts of the claim hold there:
  no verify call, \<open>clearCart\<close> not called, the cart as it was. A rejection that does carry
  the string, and the dismissal of the web widget, raise no alert.
\<close>

theorem native_cancellation_shows_payment_failed:
  "filter is_Alert
     (snd (checkout_attempt (env_native\<lparr>native_checkout := Inl (cancelled_by_user n)\<rparr>)
        scr_online))
     = [Alert ''Payment Failed'' ''Payment cancelled by user'' []]
   \<and> \<not> list_ex is_VerifyPayment
     (snd (checkout_attempt (env_native\<lparr>native_checkout := Inl (cancelled_by_user n)\<rparr>)
        scr_online))
   \<and> count_list
     (snd (checkout_attempt (env_native\<lparr>native_checkout := Inl (cancelled_by_user n)\<rparr>)
        scr_online)) ClearCart = 0
   \<and> cart (fst (checkout_attempt (env_native\<lparr>native_checkout := Inl (cancelled_by_user n)\<rparr>)
        scr_online)) = cart scr_online
   \<and> filter is_Alert
     (snd (checkout_attempt (env_native\<lparr>native_checkout := Inl cancelled\<rparr>) scr_online)) = []
   \<and> filter is_Alert
     (snd (checkout_attempt (env_web\<lparr>web_checkout := WidgetDismissed\<rparr>) scr_online)) = []"
  by (simp add: input_defs run_defs)

text \<open>
  C8. For a cart total of 4000 the shipping fee is 99 and the grand total 4099; for a cart
  total of 6000 the fee is 0 and the grand total 6000; and the one intent-creation call of
  \<open>handleRazorpayPayment\<close> carries the grand total of the cart.
\<close>

theorem scenario_fees_and_intent_amount:
  "shippingFee 4000 = 99 \<and> grandTotal 4000 = 4099
   \<and> shippingFee 6000 = 0 \<and> grandTotal 6000 = 6000
   \<and> intent_amounts (fst (snd (handleRazorpayPayment e scr orderId)))
       = [grandTotal (total' (cart scr))]"
  by (simp add: shippingFee_def grandTotal_def intent_amounts_def handleRazorpayPayment_def
      native_catch_def List.map_filter_def split: sum.split option.split)

text \<open>
  C9, as the claim states it, fails: the screen's default method is sent as the string
  \<open>razorpay\<close>, which is neither \<open>cod\<close> nor \<open>online\<close>.
\<close>

theorem payment_method_online_counterexample:
  "order_payment_methods (snd (checkout_attempt env_native scr_online)) = [''razorpay'']
   \<and> ''razorpay'' \<noteq> ''cod'' \<and> ''razorpay'' \<noteq> ''online''"
  by (simp add: input_defs run_defs order_payment_methods_def List.map_filter_def)

text \<open>
  C9, amended. The \<open>payment_method\<close> field of every order-creation body is one of the two
  strings \<open>cod\<close> and \<open>razorpay\<close>: the literal of the method selected on the screen.
\<close>

theorem payment_method_cod_or_razorpay:
  "set (order_payment_methods (snd (checkout_attempt e scr))) \<subseteq> {''cod'', ''razorpay''}
   \<and> set (order_payment_methods (snd (checkout_attempt e scr)))
       \<subseteq> {paymentMethod_literal (paymentMethod scr)}"
proof (cases rule: checkout_cases [of scr e])
  case (invalid m)
  then show ?thesis by (simp add: order_payment_methods_def List.map_filter_def)
next
  case (order_failed err)
  then show ?thesis
    by (cases "paymentMethod scr")
       (simp_all add: order_payment_methods_def List.map_filter_def order_data_def)
next
  case (cod order)
  then show ?thesis by (simp add: order_payment_methods_def List.map_filter_def order_data_def)
next
  case (online order)
  show ?thesis
    by (cases rule: payment_run_cases [of e scr "order_ident order"])
       (simp_all add: online native_catch_def order_payment_methods_def order_data_def
          List.map_filter_def)
qed

theorem payment_method_cod_or_razorpay_witness:
  "order_payment_methods (snd (checkout_attempt env_native (scr_online\<lparr>paymentMethod := Cod\<rparr>)))
     = [''cod'']
   \<and> ''cod'' \<in> {''cod'', ''razorpay''}"
  using payment_method_cod_or_razorpay [of env_native "scr_online\<lparr>paymentMethod := Cod\<rparr>"]
  by (simp add: input_defs run_defs order_payment_methods_def List.map_filter_def)

text \<open>
  C10. The shipping fee is 0 exactly when the cart total is above 5000; at a total of
  exactly 5000 the fee is 99 and the grand total 5099.
\<close>

theorem free_shipping_boundary:
  "(shippingFee tot = 0 \<longleftrightarrow> tot > 5000) \<and> shippingFee 5000 = 99 \<and> grandTotal 5000 = 5099"
  by (simp add: shippingFee_def grandTotal_def)

end
